theory Spec2Isabelle
  imports Main
begin

section \<open>JavaScript strings\<close>

text \<open>
  A JavaScript string is modelled as a \<^typ>\<open>string\<close> whose characters are read as
  Latin-1 code points (0 to 255). The three library methods the components call are
  written out on that range: \<open>trim\<close> removes the white space and line terminators of
  ECMAScript that lie below 256, \<open>toLowerCase\<close> maps A-Z and the upper-case letters of
  the Latin-1 supplement, and \<open>endsWith\<close> compares the tail of the string.
\<close>

definition js_whitespace :: "char \<Rightarrow> bool" where
  "js_whitespace c =
     (let n = (of_char c :: nat)
      in n = 9 \<or> n = 10 \<or> n = 11 \<or> n = 12 \<or> n = 13 \<or> n = 32 \<or> n = 160)"

definition js_trim :: "string \<Rightarrow> string" where
  "js_trim s = rev (dropWhile js_whitespace (rev (dropWhile js_whitespace s)))"

definition js_lower_char :: "char \<Rightarrow> char" where
  "js_lower_char c =
     (let n = (of_char c :: nat)
      in if (65 \<le> n \<and> n \<le> 90) \<or> (192 \<le> n \<and> n \<le> 222 \<and> n \<noteq> 215)
         then char_of (n + 32) else c)"

definition js_toLowerCase :: "string \<Rightarrow> string" where
  "js_toLowerCase s = map js_lower_char s"

definition js_endsWith :: "string \<Rightarrow> string \<Rightarrow> bool" where
  "js_endsWith s t = (length t \<le> length s \<and> drop (length s - length t) s = t)"

text \<open>
  A template literal \<open>`${token}`\<close> converts its argument with ToString: \<open>null\<close>
  becomes the four characters \<open>null\<close>. A nullable string is a \<^typ>\<open>string option\<close>.
\<close>

definition js_template :: "string option \<Rightarrow> string" where
  "js_template v = (case v of None \<Rightarrow> ''null'' | Some t \<Rightarrow> t)"

text \<open>\<open>a || b\<close> on an optional string: \<open>undefined\<close> and the empty string are falsy.\<close>

definition js_or :: "string option \<Rightarrow> string \<Rightarrow> string" where
  "js_or a b = (case a of None \<Rightarrow> b | Some d \<Rightarrow> if d = [] then b else d)"

subsection \<open>JSON.stringify on flat objects of strings\<close>

datatype json_value = JNull | JString string

type_synonym json_object = "(string \<times> json_value) list"

definition hex_digit :: "nat \<Rightarrow> char" where
  "hex_digit n = (''0123456789abcdef'' ! (n mod 16))"

definition json_escape_char :: "char \<Rightarrow> string" where
  "json_escape_char c =
     (let n = (of_char c :: nat)
      in if n = 34 then [CHR 0x5C, CHR 0x22]
         else if n = 92 then [CHR 0x5C, CHR 0x5C]
         else if n = 8 then [CHR 0x5C, CHR ''b'']
         else if n = 12 then [CHR 0x5C, CHR ''f'']
         else if n = 10 then [CHR 0x5C, CHR ''n'']
         else if n = 13 then [CHR 0x5C, CHR ''r'']
         else if n = 9 then [CHR 0x5C, CHR ''t'']
         else if n < 32 then
           [CHR 0x5C, CHR ''u'', CHR ''0'', CHR ''0'', hex_digit (n div 16), hex_digit n]
         else [c])"

definition json_quote :: "string \<Rightarrow> string" where
  "json_quote s = [CHR 0x22] @ concat (map json_escape_char s) @ [CHR 0x22]"

definition json_of_value :: "json_value \<Rightarrow> string" where
  "json_of_value v = (case v of JNull \<Rightarrow> ''null'' | JString s \<Rightarrow> json_quote s)"

fun json_members :: "json_object \<Rightarrow> string" where
  "json_members [] = []"
| "json_members [(k, v)] = json_quote k @ '':'' @ json_of_value v"
| "json_members ((k, v) # kvs) =
     json_quote k @ '':'' @ json_of_value v @ '','' @ json_members kvs"

definition JSON_stringify :: "json_object \<Rightarrow> string" where
  "JSON_stringify obj = ''{'' @ json_members obj @ ''}''"

section \<open>Requests, responses and notices\<close>

text \<open>
  Every network call goes through axios. A call is recorded in a log of requests, in the
  order of issue; the URL is kept relative to the constant \<open>API\<close>
  (\<open>`${BACKEND_URL}/api`\<close>), and the headers are those of the call's own config.
  A toast is recorded in a log of notices, \<open>console.log\<close> and \<open>console.error\<close> in a log
  of lines.
\<close>

record js_file =
  name :: string
  bytes :: string

datatype form_value = FileValue js_file | StringValue string

datatype body =
    NoBody
  | FormData "(string \<times> form_value) list"
  | JsonBody json_object

datatype http_method = GET | POST

datatype url = Api string

record request =
  meth :: http_method
  target :: url
  headers :: "(string \<times> string) list"
  payload :: body

datatype toast = ToastSuccess string | ToastError string

text \<open>
  A rejected axios promise: either no response at all, or a response whose body may carry
  a \<open>detail\<close> field. \<open>error.response?.data?.detail\<close> is \<open>undefined\<close> in the first case.
\<close>

datatype http_error = NetworkError | HttpError "string option"

definition error_detail :: "http_error \<Rightarrow> string option" where
  "error_detail e = (case e of NetworkError \<Rightarrow> None | HttpError d \<Rightarrow> d)"

datatype 'a outcome = Fulfilled 'a | Rejected http_error

section \<open>Dashboard: the analysis workflow\<close>

datatype input_mode = Upload | Text

datatype tab = Prompts | Analyze | Analyses

record analysis_form =
  prompt_id :: string
  ai_model :: string

record analysis =
  analysis_id :: string
  document_name :: string
  response_text :: string

text \<open>
  The component state of \<open>Dashboard\<close> that the analysis workflow reads and writes (the
  \<open>useState\<close> cells of lines 18 to 29; the cells of the prompt editor are not touched by
  it), the two effect logs, and \<open>awaiting\<close>: the number of analysis requests whose promise
  has not settled yet, that is the continuations of \<open>handleAnalyzeDocument\<close> still
  suspended at their \<open>await\<close>.
\<close>

record dashboard =
  activeTab :: tab
  analyses :: "analysis list"
  selectedFile :: "js_file option"
  analysisForm :: analysis_form
  analyzing :: bool
  inputMode :: input_mode
  textInput :: string
  toasts :: "toast list"
  requests :: "request list"
  awaiting :: nat

definition default_form :: analysis_form where
  "default_form = \<lparr>prompt_id = '''', ai_model = ''gpt-5''\<rparr>"

definition toast_success :: "string \<Rightarrow> dashboard \<Rightarrow> dashboard" where
  "toast_success m s = s\<lparr>toasts := toasts s @ [ToastSuccess m]\<rparr>"

definition toast_error :: "string \<Rightarrow> dashboard \<Rightarrow> dashboard" where
  "toast_error m s = s\<lparr>toasts := toasts s @ [ToastError m]\<rparr>"

definition axios_send :: "request \<Rightarrow> dashboard \<Rightarrow> dashboard" where
  "axios_send r s = s\<lparr>requests := requests s @ [r]\<rparr>"

subsection \<open>loadPrompts, loadAnalyses (lines 36 to 52)\<close>

definition prompts_request :: request where
  "prompts_request = \<lparr>meth = GET, target = Api ''/prompts'', headers = [], payload = NoBody\<rparr>"

definition analyses_request :: request where
  "analyses_request =
     \<lparr>meth = GET, target = Api ''/documents/analyses'', headers = [], payload = NoBody\<rparr>"

definition loadAnalyses :: "dashboard \<Rightarrow> dashboard" where
  "loadAnalyses s = axios_send analyses_request s"

definition loadAnalyses_settled :: "analysis list outcome \<Rightarrow> dashboard \<Rightarrow> dashboard" where
  "loadAnalyses_settled r s =
     (case r of
        Fulfilled rows \<Rightarrow> s\<lparr>analyses := rows\<rparr>
      | Rejected e \<Rightarrow> toast_error ''Failed to load analyses'' s)"

text \<open>The state after mounting: the \<open>useState\<close> defaults and the two loads of \<open>useEffect\<close>.\<close>

definition dashboard_init :: dashboard where
  "dashboard_init =
     \<lparr>activeTab = Prompts, analyses = [], selectedFile = None, analysisForm = default_form,
      analyzing = False, inputMode = Upload, textInput = '''', toasts = [],
      requests = [prompts_request, analyses_request], awaiting = 0\<rparr>"

subsection \<open>handleFileSelect (lines 96 to 105)\<close>

text \<open>The argument is \<open>e.target.files[0]\<close>: \<open>None\<close> when the file list is empty.\<close>

definition handleFileSelect :: "js_file option \<Rightarrow> dashboard \<Rightarrow> dashboard" where
  "handleFileSelect picked s =
     (case picked of
        None \<Rightarrow> s
      | Some f \<Rightarrow>
          if \<not> js_endsWith (js_toLowerCase (name f)) ''.pdf''
          then toast_error ''Please select a PDF file'' s
          else s\<lparr>selectedFile := Some f\<rparr>)"

subsection \<open>handleAnalyzeDocument (lines 107 to 162)\<close>

text \<open>
  The payload of lines 125 to 148. \<open>FormData.append\<close> stores a value that is not a Blob
  as its string, so a \<open>null\<close> file would be sent as the text \<open>null\<close>; the validation
  before it keeps that branch from running.
\<close>

definition form_object :: "analysis_form \<Rightarrow> json_object" where
  "form_object a = [(''prompt_id'', JString (prompt_id a)), (''ai_model'', JString (ai_model a))]"

definition analyze_request :: "dashboard \<Rightarrow> request" where
  "analyze_request s =
     (if inputMode s = Upload
      then \<lparr>meth = POST, target = Api ''/documents/analyze'',
            headers = [(''Content-Type'', ''multipart/form-data'')],
            payload = FormData
              [(''file'', (case selectedFile s of
                             Some f \<Rightarrow> FileValue f | None \<Rightarrow> StringValue ''null'')),
               (''analysis_data'', StringValue (JSON_stringify (form_object (analysisForm s))))]\<rparr>
      else \<lparr>meth = POST, target = Api ''/documents/analyze-text'',
            headers = [(''Content-Type'', ''application/json'')],
            payload = JsonBody
              (form_object (analysisForm s) @
               [(''text_content'', JString (textInput s)),
                (''document_name'', JString ''Text Input'')])\<rparr>)"

text \<open>
  The handler up to its \<open>await\<close>: the two validations, \<open>setAnalyzing(true)\<close> and the
  call of \<open>axios.post\<close> with the payload built from the state of this render.
\<close>

definition handleAnalyzeDocument :: "dashboard \<Rightarrow> dashboard" where
  "handleAnalyzeDocument s =
     (if inputMode s = Upload \<and> (selectedFile s = None \<or> prompt_id (analysisForm s) = [])
      then toast_error ''Please select a file and prompt'' s
      else if inputMode s = Text \<and>
              (js_trim (textInput s) = [] \<or> prompt_id (analysisForm s) = [])
      then toast_error ''Please enter text content and select a prompt'' s
      else (axios_send (analyze_request s) (s\<lparr>analyzing := True\<rparr>))
             \<lparr>awaiting := Suc (awaiting s)\<rparr>)"

text \<open>
  The handler after its \<open>await\<close>. When the promise is fulfilled, lines 150 to 155 run (the
  response itself is bound but never read); when it is rejected, line 158; in both cases
  the \<open>finally\<close> of line 160. Every setter is called with a constant, so the continuation
  acts on the state current at the time it runs.
\<close>

definition handleAnalyzeDocument_settled :: "analysis outcome \<Rightarrow> dashboard \<Rightarrow> dashboard" where
  "handleAnalyzeDocument_settled r s =
     (case r of
        Fulfilled res \<Rightarrow>
          (loadAnalyses
             ((toast_success ''Content analyzed successfully!'' s)
                \<lparr>selectedFile := None, textInput := '''', analysisForm := default_form\<rparr>))
            \<lparr>activeTab := Analyses\<rparr>
      | Rejected e \<Rightarrow> toast_error (js_or (error_detail e) ''Analysis failed'') s)
       \<lparr>analyzing := False, awaiting := awaiting s - 1\<rparr>"

subsection \<open>The analyze form (lines 371 to 539)\<close>

text \<open>The \<open>disabled\<close> attribute of the submit button (lines 518 to 520).\<close>

definition analyze_btn_disabled :: "dashboard \<Rightarrow> bool" where
  "analyze_btn_disabled s =
     (analyzing s \<or>
      (inputMode s = Upload \<and> (selectedFile s = None \<or> prompt_id (analysisForm s) = [])) \<or>
      (inputMode s = Text \<and> (js_trim (textInput s) = [] \<or> prompt_id (analysisForm s) = [])))"

text \<open>
  One click on the submit button as it is rendered from the state \<open>s\<close>: a button
  rendered disabled dispatches no submit, an enabled one runs the form's \<open>onSubmit\<close>,
  which is \<open>handleAnalyzeDocument\<close>. The test belongs to the rendered button and not to
  the handler: a submit that reaches \<open>onSubmit\<close> in another way (a submit event dispatched
  on the form, a second click handled before the component has rendered again) enters
  \<open>handleAnalyzeDocument\<close> untested.
\<close>

definition analyze_btn_click :: "dashboard \<Rightarrow> dashboard" where
  "analyze_btn_click s = (if analyze_btn_disabled s then s else handleAnalyzeDocument s)"

text \<open>The \<open>onClick\<close> of the two input-mode buttons (lines 385 and 399).\<close>

definition upload_mode_onClick :: "dashboard \<Rightarrow> dashboard" where
  "upload_mode_onClick s = s\<lparr>inputMode := Upload, textInput := '''', selectedFile := None\<rparr>"

definition text_mode_onClick :: "dashboard \<Rightarrow> dashboard" where
  "text_mode_onClick s = s\<lparr>inputMode := Text, selectedFile := None, textInput := ''''\<rparr>"

text \<open>
  The events of the component while it is mounted (a logout unmounts it and is not among
  them). An element answers only while it is rendered: the whole
  form while \<open>activeTab === 'analyze'\<close>, the file input while \<open>inputMode === 'upload'\<close>
  (line 415), the text area while \<open>inputMode === 'text'\<close> (line 450). \<open>AnalyzeClick\<close> is
  a click on the submit button rendered from the current state; \<open>FormSubmit\<close> is a submit
  that reaches \<open>onSubmit\<close> without the button's test. The response to an analysis request
  arrives only while one is awaited, whether or not \<open>analyzing\<close> still holds then.
\<close>

datatype event =
    TabClick tab
  | UploadModeClick
  | TextModeClick
  | FileChange "js_file option"
  | TextChange string
  | PromptChange string
  | ModelChange string
  | AnalyzeClick
  | FormSubmit
  | AnalyzeSettled "analysis outcome"
  | AnalysesSettled "analysis list outcome"

fun step :: "dashboard \<Rightarrow> event \<Rightarrow> dashboard" where
  "step s (TabClick t) = s\<lparr>activeTab := t\<rparr>"
| "step s UploadModeClick = (if activeTab s = Analyze then upload_mode_onClick s else s)"
| "step s TextModeClick = (if activeTab s = Analyze then text_mode_onClick s else s)"
| "step s (FileChange picked) =
     (if activeTab s = Analyze \<and> inputMode s = Upload then handleFileSelect picked s else s)"
| "step s (TextChange v) =
     (if activeTab s = Analyze \<and> inputMode s = Text then s\<lparr>textInput := v\<rparr> else s)"
| "step s (PromptChange v) =
     (if activeTab s = Analyze
      then s\<lparr>analysisForm := (analysisForm s)\<lparr>prompt_id := v\<rparr>\<rparr> else s)"
| "step s (ModelChange v) =
     (if activeTab s = Analyze
      then s\<lparr>analysisForm := (analysisForm s)\<lparr>ai_model := v\<rparr>\<rparr> else s)"
| "step s AnalyzeClick = (if activeTab s = Analyze then analyze_btn_click s else s)"
| "step s FormSubmit = (if activeTab s = Analyze then handleAnalyzeDocument s else s)"
| "step s (AnalyzeSettled r) =
     (if 0 < awaiting s then handleAnalyzeDocument_settled r s else s)"
| "step s (AnalysesSettled r) = loadAnalyses_settled r s"

definition run :: "event list \<Rightarrow> dashboard" where
  "run es = foldl step dashboard_init es"

subsection \<open>The conditions as the specification words them\<close>

text \<open>
  A file name ends in \<open>.pdf\<close>, case-insensitively: its last four characters are a dot,
  \<open>p\<close> or \<open>P\<close>, \<open>d\<close> or \<open>D\<close>, \<open>f\<close> or \<open>F\<close>.
\<close>

definition pdf_suffix_ci :: "string \<Rightarrow> bool" where
  "pdf_suffix_ci nm =
     (case rev nm of
        f # d # p # dot # _ \<Rightarrow>
          dot = CHR ''.'' \<and> (p = CHR ''p'' \<or> p = CHR ''P'') \<and>
          (d = CHR ''d'' \<or> d = CHR ''D'') \<and> (f = CHR ''f'' \<or> f = CHR ''F'')
      | _ \<Rightarrow> False)"

text \<open>
  The validation precondition fails: no prompt is selected, or the mode is Upload and no
  file is selected, or the mode is Text and the body is empty after trimming.
\<close>

definition validation_fails :: "dashboard \<Rightarrow> bool" where
  "validation_fails s =
     (prompt_id (analysisForm s) = [] \<or>
      (inputMode s = Upload \<and> selectedFile s = None) \<or>
      (inputMode s = Text \<and> js_trim (textInput s) = []))"

section \<open>App and AuthCallback: the session\<close>

record user_obj =
  user_id :: string
  user_name :: string

record cookie =
  cookie_value :: string
  cookie_path :: string
  cookie_secure :: bool
  cookie_samesite :: string
  cookie_max_age :: nat

text \<open>
  The state cells of \<open>App\<close> (\<open>user\<close>, \<open>loading\<close>, \<open>sessionToken\<close>) and of \<open>AuthCallback\<close>
  (\<open>processing\<close>), and the process-wide state they write: the cookie named
  \<open>session_token\<close> in \<open>document.cookie\<close>, the entry \<open>Authorization\<close> of
  \<open>axios.defaults.headers.common\<close>, the fragment of the visible URL, and a navigation
  started by an assignment to \<open>window.location.href\<close>.
\<close>

record app =
  user :: "user_obj option"
  loading :: bool
  sessionToken :: "string option"
  processing :: bool
  session_cookie :: "cookie option"
  authorization :: "string option"
  location_hash :: string
  location_href :: "string option"
  app_toasts :: "toast list"
  app_requests :: "request list"
  console :: "string list"

definition app_init :: "cookie option \<Rightarrow> string \<Rightarrow> app" where
  "app_init jar fragment =
     \<lparr>user = None, loading = True, sessionToken = None, processing = True,
      session_cookie = jar, authorization = None, location_hash = fragment,
      location_href = None, app_toasts = [], app_requests = [], console = []\<rparr>"

definition me_request :: request where
  "me_request = \<lparr>meth = GET, target = Api ''/auth/me'', headers = [], payload = NoBody\<rparr>"

definition logout_request :: request where
  "logout_request =
     \<lparr>meth = POST, target = Api ''/auth/logout'', headers = [], payload = NoBody\<rparr>"

definition session_data_request :: "string \<Rightarrow> request" where
  "session_data_request sid =
     \<lparr>meth = POST, target = Api ''/auth/session-data'',
      headers = [(''X-Session-ID'', sid)], payload = JsonBody []\<rparr>"

definition app_send :: "request \<Rightarrow> app \<Rightarrow> app" where
  "app_send r s = s\<lparr>app_requests := app_requests s @ [r]\<rparr>"

subsection \<open>checkExistingSession (part_000, lines 27 to 36)\<close>

definition checkExistingSession :: "user_obj outcome \<Rightarrow> app \<Rightarrow> app" where
  "checkExistingSession probe s =
     (case probe of
        Fulfilled u \<Rightarrow> (app_send me_request s)\<lparr>user := Some u\<rparr>
      | Rejected e \<Rightarrow>
          (app_send me_request s)\<lparr>console := console s @ [''No existing session'']\<rparr>)
       \<lparr>loading := False\<rparr>"

subsection \<open>handleLogin (part_000, lines 38 to 49)\<close>

text \<open>
  The token is interpolated into the cookie string and into the header by template
  literals, whatever it is. Of the string assigned to \<open>document.cookie\<close> the value of the
  cookie is what stands between \<open>session_token=\<close> and the first semicolon, without the
  spaces and tabs around it; the attributes written after the token are the last of
  their names in the string and so the ones in force.
\<close>

definition cookie_blank :: "char \<Rightarrow> bool" where
  "cookie_blank c = (c = CHR '' '' \<or> c = CHR 0x09)"

definition cookie_value_of :: "string \<Rightarrow> string" where
  "cookie_value_of v =
     rev (dropWhile cookie_blank
       (rev (dropWhile cookie_blank (takeWhile (\<lambda>c. c \<noteq> CHR '';'') v))))"

definition handleLogin :: "user_obj \<Rightarrow> string option \<Rightarrow> app \<Rightarrow> app" where
  "handleLogin userData token s =
     s\<lparr>user := Some userData,
       sessionToken := token,
       session_cookie :=
         Some \<lparr>cookie_value = cookie_value_of (js_template token), cookie_path = ''/'',
               cookie_secure = True, cookie_samesite = ''none'',
               cookie_max_age = 7 * 24 * 60 * 60\<rparr>,
       authorization := Some (''Bearer '' @ js_template token),
       app_toasts := app_toasts s @ [ToastSuccess ''Successfully logged in!'']\<rparr>"

subsection \<open>handleLogout (part_000, lines 51 to 68)\<close>

text \<open>
  Up to the \<open>await\<close> the handler posts to the logout endpoint; after it, whatever the
  outcome, it tears the session down. Assigning a cookie whose \<open>expires\<close> lies in the past
  removes the cookie of that name and path.
\<close>

definition handleLogout_post :: "app \<Rightarrow> app" where
  "handleLogout_post s = app_send logout_request s"

definition handleLogout_settled :: "unit outcome \<Rightarrow> app \<Rightarrow> app" where
  "handleLogout_settled r s =
     (case r of
        Fulfilled _ \<Rightarrow> s
      | Rejected e \<Rightarrow> s\<lparr>console := console s @ [''Logout error:'']\<rparr>)
       \<lparr>user := None, sessionToken := None, session_cookie := None, authorization := None,
        app_toasts := app_toasts s @ [ToastSuccess ''Successfully logged out!'']\<rparr>"

definition handleLogout :: "unit outcome \<Rightarrow> app \<Rightarrow> app" where
  "handleLogout r s = handleLogout_settled r (handleLogout_post s)"

subsection \<open>processSessionId (AuthCallback.jsx, lines 12 to 51)\<close>

text \<open>
  \<open>fragment.match(/session_id=([^&]+)/)\<close>: the leftmost place where \<open>session_id=\<close> is
  followed by at least one character other than \<open>&\<close>; the group is the longest run of
  such characters there.
\<close>

fun sessionMatch :: "string \<Rightarrow> string option" where
  "sessionMatch [] = None"
| "sessionMatch (c # cs) =
     (let grp = takeWhile (\<lambda>x. x \<noteq> CHR ''&'') (drop 11 (c # cs))
      in if take 11 (c # cs) = ''session_id='' \<and> grp \<noteq> [] then Some grp
         else sessionMatch cs)"

text \<open>
  The effect takes the outcome of the exchange and the outcome of the who-am-I probe;
  it issues one of the two requests and reads the outcome of that one.
  \<open>replaceState(null, null, pathname)\<close> empties the fragment.
\<close>

definition processSessionId ::
  "(user_obj \<times> string option) outcome \<Rightarrow> user_obj outcome \<Rightarrow> app \<Rightarrow> app" where
  "processSessionId exchange probe s =
     (case sessionMatch (location_hash s) of
        Some sessionId \<Rightarrow>
          (case exchange of
             Fulfilled (u, token) \<Rightarrow>
               handleLogin u token
                 ((app_send (session_data_request sessionId) s)\<lparr>location_hash := ''''\<rparr>)
           | Rejected e \<Rightarrow>
               (app_send (session_data_request sessionId) s)
                 \<lparr>console := console s @ [''Session processing error:''],
                  app_toasts :=
                    app_toasts s @ [ToastError ''Authentication failed. Please try again.''],
                  location_href := Some ''/''\<rparr>)
      | None \<Rightarrow>
          (case probe of
             Fulfilled u \<Rightarrow> handleLogin u None (app_send me_request s)
           | Rejected e \<Rightarrow> (app_send me_request s)\<lparr>location_href := Some ''/''\<rparr>))
       \<lparr>processing := False\<rparr>"

section \<open>Scenarios\<close>

text \<open>
  Concrete runs of the component, used to evaluate the handlers: a PDF and a prompt chosen
  in upload mode, a blank text body, a text body with a prompt and a model chosen, an
  upload with the second model chosen, and two submits in a row that reach the handler.
\<close>

definition report_pdf :: js_file where
  "report_pdf = \<lparr>name = ''report.pdf'', bytes = ''%PDF-1.4''\<rparr>"

definition upload_ready :: dashboard where
  "upload_ready = run [TabClick Analyze, FileChange (Some report_pdf), PromptChange ''p1'']"

definition text_blank :: dashboard where
  "text_blank = run [TabClick Analyze, TextModeClick, TextChange ''  '', PromptChange ''p1'']"

definition text_ready :: dashboard where
  "text_ready =
     run [TabClick Analyze, TextModeClick, TextChange '' hello '', PromptChange ''p1'',
          ModelChange ''claude-4'']"

definition upload_claude :: dashboard where
  "upload_claude =
     run [TabClick Analyze, FileChange (Some report_pdf), PromptChange ''p1'',
          ModelChange ''claude-4'']"

definition double_submit :: dashboard where
  "double_submit =
     run [TabClick Analyze, FileChange (Some report_pdf), PromptChange ''p1'',
          FormSubmit, FormSubmit]"

text \<open>The server's answer of the specification's scenario 7, and the state it leaves.\<close>

definition a1 :: analysis where
  "a1 = \<lparr>analysis_id = ''a1'', document_name = ''report.pdf'', response_text = ''...''\<rparr>"

definition after_success :: dashboard where
  "after_success =
     handleAnalyzeDocument_settled (Fulfilled a1) (analyze_btn_click upload_claude)"

text \<open>
  The handler entered twice, the first response arriving, and the user preparing the next
  request (a new file and prompt) while the second response is still awaited; and the
  same as a run of the component.
\<close>

definition other_pdf :: js_file where
  "other_pdf = \<lparr>name = ''other.pdf'', bytes = ''%PDF-1.7''\<rparr>"

definition stale_before :: dashboard where
  "stale_before =
     foldl step
       (handleAnalyzeDocument_settled (Fulfilled a1)
          (handleAnalyzeDocument (handleAnalyzeDocument upload_ready)))
       [TabClick Analyze, FileChange (Some other_pdf), PromptChange ''p2'']"

definition stale_run :: "event list" where
  "stale_run =
     [TabClick Analyze, FileChange (Some report_pdf), PromptChange ''p1'',
      FormSubmit, FormSubmit, AnalyzeSettled (Fulfilled a1),
      TabClick Analyze, FileChange (Some other_pdf), PromptChange ''p2'']"

text \<open>
  The session scenarios: a visitor without a session, the same visitor after a login with
  the token \<open>tok1\<close>, and a visitor who reaches \<open>AuthCallback\<close> with a fragment that holds
  no \<open>session_id\<close> while the who-am-I probe succeeds.
\<close>

definition user_a :: user_obj where
  "user_a = \<lparr>user_id = ''u1'', user_name = ''A''\<rparr>"

definition anonymous :: app where
  "anonymous =
     checkExistingSession (Rejected (HttpError (Some ''Not authenticated'')))
       (app_init None '''')"

definition logged_in :: app where
  "logged_in = handleLogin user_a (Some ''tok1'') anonymous"

definition fallback_login :: app where
  "fallback_login =
     processSessionId (Rejected NetworkError) (Fulfilled user_a) (app_init None ''#'')"

section \<open>An invariant of the component\<close>

text \<open>In upload mode the text body is empty and in text mode no file is selected.\<close>

definition mode_inv :: "dashboard \<Rightarrow> bool" where
  "mode_inv s =
     (case inputMode s of Upload \<Rightarrow> textInput s = [] | Text \<Rightarrow> selectedFile s = None)"

section \<open>Properties of the string functions\<close>

lemma of_char_lower:
  "(of_char (js_lower_char c) :: nat) =
     (if (65 \<le> (of_char c :: nat) \<and> (of_char c :: nat) \<le> 90) \<or>
         (192 \<le> (of_char c :: nat) \<and> (of_char c :: nat) \<le> 222 \<and> (of_char c :: nat) \<noteq> 215)
      then of_char c + 32 else of_char c)"
  by (simp add: js_lower_char_def Let_def)

lemma lower_char_eq:
  "js_lower_char c = d \<longleftrightarrow> (of_char (js_lower_char c) :: nat) = of_char d"
  by simp

lemma char_eq_code: "c = d \<longleftrightarrow> (of_char c :: nat) = of_char d"
  by simp

lemma lower_p: "js_lower_char c = CHR ''p'' \<longleftrightarrow> c = CHR ''p'' \<or> c = CHR ''P''"
  unfolding lower_char_eq of_char_lower char_eq_code [of c] by auto

lemma lower_d: "js_lower_char c = CHR ''d'' \<longleftrightarrow> c = CHR ''d'' \<or> c = CHR ''D''"
  unfolding lower_char_eq of_char_lower char_eq_code [of c] by auto

lemma lower_f: "js_lower_char c = CHR ''f'' \<longleftrightarrow> c = CHR ''f'' \<or> c = CHR ''F''"
  unfolding lower_char_eq of_char_lower char_eq_code [of c] by auto

lemma lower_dot: "js_lower_char c = CHR ''.'' \<longleftrightarrow> c = CHR ''.''"
  unfolding lower_char_eq of_char_lower char_eq_code [of c] by auto

lemma js_endsWith_append: "js_endsWith s t \<longleftrightarrow> (\<exists>pre. s = pre @ t)"
proof
  assume "js_endsWith s t"
  then have "s = take (length s - length t) s @ t"
    by (metis append_take_drop_id js_endsWith_def)
  then show "\<exists>pre. s = pre @ t" ..
next
  assume "\<exists>pre. s = pre @ t"
  then show "js_endsWith s t" by (auto simp: js_endsWith_def)
qed

lemma pdf_suffix_ci_append:
  "pdf_suffix_ci nm \<longleftrightarrow>
     (\<exists>pre p d f. nm = pre @ [CHR ''.'', p, d, f] \<and> (p = CHR ''p'' \<or> p = CHR ''P'') \<and>
          (d = CHR ''d'' \<or> d = CHR ''D'') \<and> (f = CHR ''f'' \<or> f = CHR ''F''))"
  (is "?L \<longleftrightarrow> ?R")
proof
  assume ?L
  then obtain f d p r where r: "rev nm = f # d # p # CHR ''.'' # r"
    and c: "(p = CHR ''p'' \<or> p = CHR ''P'')" "(d = CHR ''d'' \<or> d = CHR ''D'')" "(f = CHR ''f'' \<or> f = CHR ''F'')"
    by (auto simp: pdf_suffix_ci_def split: list.splits)
  from r have "nm = rev r @ [CHR ''.'', p, d, f]"
    by (metis rev_rev_ident rev.simps(2) append_Cons append_Nil append_assoc)
  with c show ?R by blast
next
  assume ?R
  then show ?L by (auto simp: pdf_suffix_ci_def)
qed

lemma endsWith_map:
  "js_endsWith (map g nm) t \<longleftrightarrow> (\<exists>us vs. nm = us @ vs \<and> map g vs = t)"
  unfolding js_endsWith_append by (auto simp: map_eq_append_conv)

lemma lower_pdf:
  "map js_lower_char vs = ''.pdf'' \<longleftrightarrow>
     (\<exists>p d f. vs = [CHR ''.'', p, d, f] \<and> (p = CHR ''p'' \<or> p = CHR ''P'') \<and>
          (d = CHR ''d'' \<or> d = CHR ''D'') \<and> (f = CHR ''f'' \<or> f = CHR ''F''))"
  by (auto simp: map_eq_Cons_conv lower_p lower_d lower_f lower_dot)

lemma endsWith_pdf_ci: "js_endsWith (js_toLowerCase nm) ''.pdf'' \<longleftrightarrow> pdf_suffix_ci nm"
proof -
  have "js_endsWith (js_toLowerCase nm) ''.pdf'' \<longleftrightarrow>
          (\<exists>us vs. nm = us @ vs \<and> map js_lower_char vs = ''.pdf'')"
    unfolding js_toLowerCase_def by (rule endsWith_map)
  also have "\<dots> \<longleftrightarrow> pdf_suffix_ci nm"
    unfolding lower_pdf pdf_suffix_ci_append by blast
  finally show ?thesis .
qed

lemmas run_defs = run_def dashboard_init_def default_form_def handleFileSelect_def
  upload_mode_onClick_def text_mode_onClick_def

lemma upload_ready_eq:
  "upload_ready = dashboard_init\<lparr>activeTab := Analyze, selectedFile := Some report_pdf,
      analysisForm := \<lparr>prompt_id = ''p1'', ai_model = ''gpt-5''\<rparr>\<rparr>"
  by (simp add: upload_ready_def run_defs report_pdf_def js_endsWith_def js_toLowerCase_def js_lower_char_def)

lemma text_blank_eq:
  "text_blank = dashboard_init\<lparr>activeTab := Analyze, inputMode := Text, textInput := ''  '',
      analysisForm := \<lparr>prompt_id = ''p1'', ai_model = ''gpt-5''\<rparr>\<rparr>"
  by (simp add: text_blank_def run_defs)

lemma text_ready_eq:
  "text_ready = dashboard_init\<lparr>activeTab := Analyze, inputMode := Text, textInput := '' hello '',
      analysisForm := \<lparr>prompt_id = ''p1'', ai_model = ''claude-4''\<rparr>\<rparr>"
  by (simp add: text_ready_def run_defs)

section \<open>Properties of the handlers\<close>

lemma upload_claude_eq:
  "upload_claude = dashboard_init\<lparr>activeTab := Analyze, selectedFile := Some report_pdf,
      analysisForm := \<lparr>prompt_id = ''p1'', ai_model = ''claude-4''\<rparr>\<rparr>"
  by (simp add: upload_claude_def run_defs report_pdf_def js_endsWith_def js_toLowerCase_def
      js_lower_char_def)

lemma run_snoc: "run (es @ [e]) = step (run es) e"
  by (simp add: run_def)

lemma accepted_submit:
  "\<not> analyze_btn_disabled s \<Longrightarrow>
     handleAnalyzeDocument s =
       s\<lparr>analyzing := True, requests := requests s @ [analyze_request s],
         awaiting := Suc (awaiting s)\<rparr>"
  by (cases "inputMode s")
     (auto simp: analyze_btn_disabled_def handleAnalyzeDocument_def axios_send_def)

lemma upload_ready_enabled: "\<not> analyze_btn_disabled upload_ready"
  by (simp add: analyze_btn_disabled_def upload_ready_eq dashboard_init_def)

lemma handler_accepts:
  "\<not> validation_fails s \<Longrightarrow>
     handleAnalyzeDocument s =
       s\<lparr>analyzing := True, requests := requests s @ [analyze_request s],
         awaiting := Suc (awaiting s)\<rparr>"
  by (cases "inputMode s")
     (auto simp: validation_fails_def handleAnalyzeDocument_def axios_send_def)

lemma upload_ready_valid: "\<not> validation_fails upload_ready"
  by (simp add: validation_fails_def upload_ready_eq dashboard_init_def)

lemma upload_ready_submitted:
  "handleAnalyzeDocument upload_ready =
     upload_ready\<lparr>analyzing := True,
       requests := requests upload_ready @ [analyze_request upload_ready],
       awaiting := Suc (awaiting upload_ready)\<rparr>"
  using upload_ready_valid by (rule handler_accepts)

lemma handler_keeps_tab: "activeTab (handleAnalyzeDocument s) = activeTab s"
  by (simp add: handleAnalyzeDocument_def toast_error_def axios_send_def)

lemma double_submit_eq:
  "double_submit = handleAnalyzeDocument (handleAnalyzeDocument upload_ready)"
proof -
  have "double_submit = step (step upload_ready FormSubmit) FormSubmit"
    by (simp only: double_submit_def upload_ready_def run_def foldl_Cons foldl_Nil)
  moreover have "activeTab upload_ready = Analyze"
    by (simp add: upload_ready_eq)
  ultimately show ?thesis by (simp add: handler_keeps_tab)
qed

lemma stale_before_run: "stale_before = run stale_run"
proof -
  have "run stale_run =
      foldl step (step double_submit (AnalyzeSettled (Fulfilled a1)))
        [TabClick Analyze, FileChange (Some other_pdf), PromptChange ''p2'']"
    by (simp only: stale_run_def double_submit_def run_def foldl_Cons foldl_Nil)
  moreover have "0 < awaiting double_submit"
    unfolding double_submit_eq upload_ready_submitted
    by (simp add: handleAnalyzeDocument_def axios_send_def upload_ready_eq dashboard_init_def)
  ultimately show ?thesis
    by (simp add: stale_before_def double_submit_eq)
qed

subsection \<open>The invariant holds in every run\<close>

lemma mode_inv_step: "mode_inv s \<Longrightarrow> mode_inv (step s e)"
proof (cases e)
  case (FileChange picked)
  assume "mode_inv s"
  with FileChange show ?thesis
    by (auto simp: mode_inv_def handleFileSelect_def toast_error_def
        split: option.splits input_mode.splits)
next
  case AnalyzeClick
  assume "mode_inv s"
  with AnalyzeClick show ?thesis
    by (auto simp: mode_inv_def analyze_btn_click_def handleAnalyzeDocument_def
        toast_error_def axios_send_def split: input_mode.splits)
next
  case FormSubmit
  assume "mode_inv s"
  with FormSubmit show ?thesis
    by (auto simp: mode_inv_def handleAnalyzeDocument_def toast_error_def axios_send_def
        split: input_mode.splits)
next
  case (AnalyzeSettled r)
  assume "mode_inv s"
  with AnalyzeSettled show ?thesis
    by (cases r)
       (auto simp: mode_inv_def handleAnalyzeDocument_settled_def loadAnalyses_def
          axios_send_def toast_success_def toast_error_def split: input_mode.splits)
next
  case (AnalysesSettled r)
  assume "mode_inv s"
  with AnalysesSettled show ?thesis
    by (cases r)
       (auto simp: mode_inv_def loadAnalyses_settled_def toast_error_def
          split: input_mode.splits)
qed (auto simp: mode_inv_def upload_mode_onClick_def text_mode_onClick_def
       split: input_mode.splits)

lemma mode_inv_run: "mode_inv (run es)"
proof (induction es rule: rev_induct)
  case Nil
  show ?case by (simp add: run_def mode_inv_def dashboard_init_def)
next
  case (snoc e es)
  then show ?case by (simp add: run_snoc mode_inv_step)
qed

subsection \<open>Logout as one update of the state\<close>

lemma handleLogout_eq:
  "handleLogout r s =
     s\<lparr>user := None, sessionToken := None, session_cookie := None, authorization := None,
       app_toasts := app_toasts s @ [ToastSuccess ''Successfully logged out!''],
       app_requests := app_requests s @ [logout_request],
       console :=
         console s @ (case r of Fulfilled _ \<Rightarrow> [] | Rejected e \<Rightarrow> [''Logout error:''])\<rparr>"
  by (cases r)
     (simp_all add: handleLogout_def handleLogout_settled_def handleLogout_post_def
        app_send_def)

lemma logged_in_facts:
  "user logged_in = Some user_a \<and> authorization logged_in = Some ''Bearer tok1'' \<and>
   app_requests logged_in = [me_request]"
  by (simp add: logged_in_def anonymous_def handleLogin_def checkExistingSession_def
      app_send_def app_init_def js_template_def)

section \<open>The analysis workflow: what the claims say\<close>

text \<open>
  Claim C1, as stated, fails. \<open>submit()\<close> is \<open>handleAnalyzeDocument\<close>, and the handler never
  reads \<open>analyzing\<close>. Entered a second time while the first submission is in flight, it
  is not rejected: it posts again, so that the two calls leave two analysis requests in
  the log and two responses awaited. The two calls are a run of the component.
\<close>

theorem handler_resubmits_while_analyzing_counterexample:
  "analyzing (handleAnalyzeDocument upload_ready) \<and>
   requests upload_ready = [prompts_request, analyses_request] \<and>
   requests (handleAnalyzeDocument (handleAnalyzeDocument upload_ready)) =
     [prompts_request, analyses_request,
      analyze_request upload_ready, analyze_request upload_ready] \<and>
   awaiting (handleAnalyzeDocument (handleAnalyzeDocument upload_ready)) = 2 \<and>
   handleAnalyzeDocument (handleAnalyzeDocument upload_ready) \<noteq>
     handleAnalyzeDocument upload_ready \<and>
   run [TabClick Analyze, FileChange (Some report_pdf), PromptChange ''p1'',
        FormSubmit, FormSubmit] =
     handleAnalyzeDocument (handleAnalyzeDocument upload_ready)"
proof -
  have r: "requests upload_ready = [prompts_request, analyses_request]"
    and w: "awaiting upload_ready = 0"
    by (simp_all add: upload_ready_eq dashboard_init_def)
  have v: "\<not> validation_fails (handleAnalyzeDocument upload_ready)"
    using upload_ready_valid
    by (simp add: upload_ready_submitted validation_fails_def)
  have q: "analyze_request (handleAnalyzeDocument upload_ready) = analyze_request upload_ready"
    by (simp add: upload_ready_submitted analyze_request_def)
  have one: "analyzing (handleAnalyzeDocument upload_ready) \<and>
      requests (handleAnalyzeDocument upload_ready) =
        [prompts_request, analyses_request, analyze_request upload_ready] \<and>
      awaiting (handleAnalyzeDocument upload_ready) = 1"
    by (simp add: upload_ready_submitted r w)
  have two: "requests (handleAnalyzeDocument (handleAnalyzeDocument upload_ready)) =
     [prompts_request, analyses_request,
      analyze_request upload_ready, analyze_request upload_ready] \<and>
     awaiting (handleAnalyzeDocument (handleAnalyzeDocument upload_ready)) = 2"
    by (simp add: handler_accepts [OF v] q one)
  have "awaiting (handleAnalyzeDocument (handleAnalyzeDocument upload_ready)) \<noteq>
      awaiting (handleAnalyzeDocument upload_ready)"
    using one two by simp
  then have ne: "handleAnalyzeDocument (handleAnalyzeDocument upload_ready) \<noteq>
     handleAnalyzeDocument upload_ready"
    by auto
  have rn: "run [TabClick Analyze, FileChange (Some report_pdf), PromptChange ''p1'',
        FormSubmit, FormSubmit] =
     handleAnalyzeDocument (handleAnalyzeDocument upload_ready)"
    using double_submit_eq by (simp only: double_submit_def)
  from one r two ne rn show ?thesis by blast
qed

text \<open>
  Claim C1, amended. \<open>submit()\<close> does not reject a call made while \<open>analyzing\<close> is true:
  every call that passes validation, whatever \<open>analyzing\<close> is, sets \<open>analyzing\<close> and issues
  one network request, so two calls in a row issue two requests, both built from the same
  input. What guards against a second submission is the \<open>disabled\<close> attribute of the
  submit button: it holds in every state in which \<open>analyzing\<close> is true, in particular in
  the state that an accepted call leaves.
\<close>

theorem handler_has_no_submission_guard:
  "(\<not> validation_fails s \<longrightarrow>
      analyzing (handleAnalyzeDocument s) \<and>
      requests (handleAnalyzeDocument s) = requests s @ [analyze_request s] \<and>
      requests (handleAnalyzeDocument (handleAnalyzeDocument s)) =
        requests s @ [analyze_request s, analyze_request s] \<and>
      analyze_btn_disabled (handleAnalyzeDocument s)) \<and>
   (analyzing s \<longrightarrow> analyze_btn_disabled s)"
proof (intro conjI impI)
  assume ok: "\<not> validation_fails s"
  note first = handler_accepts [OF ok]
  from ok have ok': "\<not> validation_fails (handleAnalyzeDocument s)"
    by (simp add: first validation_fails_def)
  have same: "analyze_request (handleAnalyzeDocument s) = analyze_request s"
    by (simp add: first analyze_request_def)
  show "analyzing (handleAnalyzeDocument s)"
    by (simp add: first)
  show "requests (handleAnalyzeDocument s) = requests s @ [analyze_request s]"
    by (simp add: first)
  then show "requests (handleAnalyzeDocument (handleAnalyzeDocument s)) =
      requests s @ [analyze_request s, analyze_request s]"
    by (simp add: handler_accepts [OF ok'] same)
  show "analyze_btn_disabled (handleAnalyzeDocument s)"
    by (simp add: first analyze_btn_disabled_def)
next
  assume "analyzing s"
  then show "analyze_btn_disabled s"
    by (simp add: analyze_btn_disabled_def)
qed

theorem handler_has_no_submission_guard_witness:
  "\<not> validation_fails upload_ready \<and>
   analyzing (handleAnalyzeDocument upload_ready) \<and>
   requests (handleAnalyzeDocument (handleAnalyzeDocument upload_ready)) =
     [prompts_request, analyses_request,
      analyze_request upload_ready, analyze_request upload_ready] \<and>
   analyze_btn_disabled (handleAnalyzeDocument upload_ready)"
proof -
  have r: "requests upload_ready = [prompts_request, analyses_request]"
    by (simp add: upload_ready_eq dashboard_init_def)
  from handler_has_no_submission_guard [of upload_ready] upload_ready_valid
  have a: "analyzing (handleAnalyzeDocument upload_ready)"
    and b: "requests (handleAnalyzeDocument (handleAnalyzeDocument upload_ready)) =
              requests upload_ready @ [analyze_request upload_ready, analyze_request upload_ready]"
    and c: "analyze_btn_disabled (handleAnalyzeDocument upload_ready)"
    by blast+
  from b have b': "requests (handleAnalyzeDocument (handleAnalyzeDocument upload_ready)) =
     [prompts_request, analyses_request,
      analyze_request upload_ready, analyze_request upload_ready]"
    by (simp add: r)
  show ?thesis
    using upload_ready_valid a b' c by blast
qed

text \<open>
  Claim C2, as stated, fails. With the prompt \<open>p1\<close> and the model \<open>claude-4\<close> chosen, a
  successful submission leaves the form at its defaults (no prompt, \<open>gpt-5\<close>): the
  selection is not retained. The returned result is not appended either: the history is
  still empty after the success branch has run, and stays empty when the reload that the
  branch starts is rejected.
\<close>

theorem success_resets_selection_counterexample:
  "analysisForm upload_claude = \<lparr>prompt_id = ''p1'', ai_model = ''claude-4''\<rparr> \<and>
   analyzing (analyze_btn_click upload_claude) \<and>
   analysisForm after_success = \<lparr>prompt_id = [], ai_model = ''gpt-5''\<rparr> \<and>
   analysisForm after_success \<noteq> analysisForm upload_claude \<and>
   analyses after_success = [] \<and>
   analyses (loadAnalyses_settled (Rejected NetworkError) after_success) = []"
  by (simp add: after_success_def upload_claude_eq dashboard_init_def analyze_btn_click_def
      analyze_btn_disabled_def handleAnalyzeDocument_def handleAnalyzeDocument_settled_def
      loadAnalyses_def loadAnalyses_settled_def axios_send_def toast_success_def
      toast_error_def default_form_def)

text \<open>
  Claim C2, amended. For every successful submission the selected file and the text body
  are cleared, the input mode is retained, the prompt and model selection is reset to its
  defaults, \<open>analyzing\<close> ends, the history tab is shown and the success notice is raised.
  The history itself is untouched by the success branch, which ignores the returned
  result and issues a reload of the list instead; the history becomes what that reload
  returns, and stays as it was when the reload is rejected.
\<close>

theorem success_clears_and_reloads:
  "selectedFile (handleAnalyzeDocument_settled (Fulfilled res) s) = None \<and>
   textInput (handleAnalyzeDocument_settled (Fulfilled res) s) = [] \<and>
   inputMode (handleAnalyzeDocument_settled (Fulfilled res) s) = inputMode s \<and>
   analysisForm (handleAnalyzeDocument_settled (Fulfilled res) s) =
     \<lparr>prompt_id = [], ai_model = ''gpt-5''\<rparr> \<and>
   analyzing (handleAnalyzeDocument_settled (Fulfilled res) s) = False \<and>
   activeTab (handleAnalyzeDocument_settled (Fulfilled res) s) = Analyses \<and>
   toasts (handleAnalyzeDocument_settled (Fulfilled res) s) =
     toasts s @ [ToastSuccess ''Content analyzed successfully!''] \<and>
   analyses (handleAnalyzeDocument_settled (Fulfilled res) s) = analyses s \<and>
   requests (handleAnalyzeDocument_settled (Fulfilled res) s) =
     requests s @ [analyses_request] \<and>
   analyses (loadAnalyses_settled (Fulfilled rows)
      (handleAnalyzeDocument_settled (Fulfilled res) s)) = rows \<and>
   analyses (loadAnalyses_settled (Rejected e)
      (handleAnalyzeDocument_settled (Fulfilled res) s)) = analyses s"
  by (simp add: handleAnalyzeDocument_settled_def loadAnalyses_def loadAnalyses_settled_def
      axios_send_def toast_success_def toast_error_def default_form_def)

text \<open>
  Claim C5, as stated, fails. The handler holds no sequence number and its continuation
  does not look at the state it finds. When the handler has been entered twice, two
  responses are awaited; the first one ends \<open>analyzing\<close>, and the second one, arriving
  while the component is no longer submitting and the user has chosen another file, is
  applied all the same: it clears that file and raises the success notice. The state
  it arrives in is the end of a run of the component.
\<close>

theorem stale_response_applied_counterexample:
  "awaiting (handleAnalyzeDocument (handleAnalyzeDocument upload_ready)) = 2 \<and>
   analyzing stale_before = False \<and> awaiting stale_before = 1 \<and>
   selectedFile stale_before = Some other_pdf \<and>
   selectedFile (handleAnalyzeDocument_settled (Fulfilled a1) stale_before) = None \<and>
   toasts (handleAnalyzeDocument_settled (Fulfilled a1) stale_before) =
     toasts stale_before @ [ToastSuccess ''Content analyzed successfully!''] \<and>
   handleAnalyzeDocument_settled (Fulfilled a1) stale_before \<noteq> stale_before \<and>
   stale_before = run stale_run"
proof -
  note reach = stale_before_run
  have sel: "selectedFile stale_before = Some other_pdf"
    by (simp add: stale_before_def upload_ready_eq dashboard_init_def
      handleAnalyzeDocument_def handleAnalyzeDocument_settled_def
      loadAnalyses_def axios_send_def toast_success_def default_form_def
      handleFileSelect_def other_pdf_def js_endsWith_def js_toLowerCase_def js_lower_char_def)
  have fl: "awaiting (handleAnalyzeDocument (handleAnalyzeDocument upload_ready)) = 2 \<and>
   analyzing stale_before = False \<and> awaiting stale_before = 1"
    by (simp add: stale_before_def upload_ready_eq dashboard_init_def
      handleAnalyzeDocument_def handleAnalyzeDocument_settled_def
      loadAnalyses_def axios_send_def toast_success_def default_form_def
      handleFileSelect_def other_pdf_def js_endsWith_def js_toLowerCase_def js_lower_char_def)
  have ap: "selectedFile (handleAnalyzeDocument_settled (Fulfilled a1) stale_before) = None \<and>
   toasts (handleAnalyzeDocument_settled (Fulfilled a1) stale_before) =
     toasts stale_before @ [ToastSuccess ''Content analyzed successfully!'']"
    by (simp add: handleAnalyzeDocument_settled_def loadAnalyses_def axios_send_def
        toast_success_def)
  have "selectedFile (handleAnalyzeDocument_settled (Fulfilled a1) stale_before) \<noteq>
        selectedFile stale_before"
    using sel ap by simp
  then have "handleAnalyzeDocument_settled (Fulfilled a1) stale_before \<noteq> stale_before"
    by auto
  with sel fl ap reach show ?thesis by blast
qed

text \<open>
  Claim C5, amended. No response to a submission is detected as stale or discarded. The
  continuation of \<open>handleAnalyzeDocument\<close> holds no sequence number and does not read
  \<open>analyzing\<close>: it acts alike on a state that is submitting and on one that is not, it
  always ends \<open>analyzing\<close> and always raises a notice; and a fulfilled response, whenever
  it arrives, clears the selected file and the text body, raises the success notice and
  starts the reload of the history.
\<close>

theorem settled_response_always_applied:
  "handleAnalyzeDocument_settled r (s\<lparr>analyzing := b\<rparr>) = handleAnalyzeDocument_settled r s \<and>
   analyzing (handleAnalyzeDocument_settled r s) = False \<and>
   length (toasts (handleAnalyzeDocument_settled r s)) = Suc (length (toasts s)) \<and>
   selectedFile (handleAnalyzeDocument_settled (Fulfilled res) s) = None \<and>
   textInput (handleAnalyzeDocument_settled (Fulfilled res) s) = [] \<and>
   toasts (handleAnalyzeDocument_settled (Fulfilled res) s) =
     toasts s @ [ToastSuccess ''Content analyzed successfully!''] \<and>
   requests (handleAnalyzeDocument_settled (Fulfilled res) s) =
     requests s @ [analyses_request]"
proof -
  have blind:
    "handleAnalyzeDocument_settled r (s\<lparr>analyzing := b\<rparr>) = handleAnalyzeDocument_settled r s"
    by (cases r)
       (simp_all add: handleAnalyzeDocument_settled_def loadAnalyses_def axios_send_def
          toast_success_def toast_error_def)
  have always: "analyzing (handleAnalyzeDocument_settled r s) = False \<and>
      length (toasts (handleAnalyzeDocument_settled r s)) = Suc (length (toasts s))"
    by (cases r)
       (simp_all add: handleAnalyzeDocument_settled_def loadAnalyses_def axios_send_def
          toast_success_def toast_error_def)
  have success: "selectedFile (handleAnalyzeDocument_settled (Fulfilled res) s) = None \<and>
      textInput (handleAnalyzeDocument_settled (Fulfilled res) s) = [] \<and>
      toasts (handleAnalyzeDocument_settled (Fulfilled res) s) =
        toasts s @ [ToastSuccess ''Content analyzed successfully!''] \<and>
      requests (handleAnalyzeDocument_settled (Fulfilled res) s) =
        requests s @ [analyses_request]"
    by (simp add: handleAnalyzeDocument_settled_def loadAnalyses_def axios_send_def
        toast_success_def)
  from blind always success show ?thesis by blast
qed

text \<open>
  Claim C6. When the validation precondition fails (no prompt selected, or Upload mode
  without a file, or Text mode with a body that is blank after trimming), a submit is
  rejected locally: through the button nothing happens at all, and the handler itself
  only raises the validation notice; no request is issued and \<open>analyzing\<close> is untouched.
\<close>

theorem submit_rejected_when_invalid:
  "validation_fails s \<Longrightarrow>
     analyze_btn_click s = s \<and>
     handleAnalyzeDocument s =
       s\<lparr>toasts := toasts s @
          [ToastError (if inputMode s = Upload then ''Please select a file and prompt''
                       else ''Please enter text content and select a prompt'')]\<rparr> \<and>
     requests (handleAnalyzeDocument s) = requests s \<and>
     analyzing (handleAnalyzeDocument s) = analyzing s"
  by (cases "inputMode s")
     (auto simp: validation_fails_def analyze_btn_click_def analyze_btn_disabled_def
        handleAnalyzeDocument_def toast_error_def)

theorem submit_rejected_when_invalid_witness:
  "validation_fails text_blank \<and> analyze_btn_click text_blank = text_blank \<and>
   requests (handleAnalyzeDocument text_blank) = requests text_blank \<and>
   toasts (handleAnalyzeDocument text_blank) =
     [ToastError ''Please enter text content and select a prompt'']"
proof -
  have h: "validation_fails text_blank"
    by (simp add: validation_fails_def text_blank_eq dashboard_init_def js_trim_def
        js_whitespace_def)
  show ?thesis
    using h submit_rejected_when_invalid [OF h]
    by (simp add: text_blank_eq dashboard_init_def)
qed

text \<open>
  Claim C7. In every run of the component, whatever the order of file choices, text
  edits, mode switches, submissions and responses, the selected file and the text body
  are never both non-empty; each of the two mode buttons leaves both empty, from any
  state, and so does a mode switch at the end of any run that shows the form.
\<close>

theorem input_sources_exclusive:
  "(selectedFile (run es) = None \<or> textInput (run es) = []) \<and>
   selectedFile (upload_mode_onClick s) = None \<and> textInput (upload_mode_onClick s) = [] \<and>
   selectedFile (text_mode_onClick s) = None \<and> textInput (text_mode_onClick s) = [] \<and>
   (activeTab (run es) = Analyze \<and> (e = UploadModeClick \<or> e = TextModeClick) \<longrightarrow>
      selectedFile (run (es @ [e])) = None \<and> textInput (run (es @ [e])) = [])"
proof -
  have "selectedFile (run es) = None \<or> textInput (run es) = []"
    using mode_inv_run [of es] by (auto simp: mode_inv_def split: input_mode.splits)
  then show ?thesis
    by (auto simp: run_snoc upload_mode_onClick_def text_mode_onClick_def)
qed

theorem input_sources_exclusive_witness:
  "activeTab upload_ready = Analyze \<and> selectedFile upload_ready = Some report_pdf \<and>
   textInput upload_ready = [] \<and>
   selectedFile (run ([TabClick Analyze, FileChange (Some report_pdf), PromptChange ''p1''] @
       [TextModeClick])) = None \<and>
   textInput (run ([TabClick Analyze, FileChange (Some report_pdf), PromptChange ''p1''] @
       [TextModeClick])) = []"
  using input_sources_exclusive
    [of "[TabClick Analyze, FileChange (Some report_pdf), PromptChange ''p1'']" dashboard_init
        TextModeClick]
  by (simp add: upload_ready_eq upload_ready_def [symmetric] dashboard_init_def)

text \<open>
  Claim C8. \<open>selectFile(file)\<close>: a file whose name does not end in \<open>.pdf\<close>,
  case-insensitively, is rejected with the validation notice and the state is otherwise
  unchanged; a file whose name does end so becomes the selected file, whatever was
  selected before.
\<close>

theorem handleFileSelect_pdf_only:
  "handleFileSelect (Some f) s =
     (if pdf_suffix_ci (name f) then s\<lparr>selectedFile := Some f\<rparr>
      else s\<lparr>toasts := toasts s @ [ToastError ''Please select a PDF file'']\<rparr>)"
  by (simp add: handleFileSelect_def endsWith_pdf_ci toast_error_def)

theorem handleFileSelect_pdf_only_witness:
  "pdf_suffix_ci ''Report.PDF'' \<and> \<not> pdf_suffix_ci ''notes.pdf.txt'' \<and>
   selectedFile (handleFileSelect (Some \<lparr>name = ''Report.PDF'', bytes = ''x''\<rparr>) upload_ready)
     = Some \<lparr>name = ''Report.PDF'', bytes = ''x''\<rparr> \<and>
   handleFileSelect (Some \<lparr>name = ''notes.pdf.txt'', bytes = ''y''\<rparr>) upload_ready
     = upload_ready\<lparr>toasts := [ToastError ''Please select a PDF file'']\<rparr>"
  using handleFileSelect_pdf_only [of "\<lparr>name = ''Report.PDF'', bytes = ''x''\<rparr>" upload_ready]
    handleFileSelect_pdf_only [of "\<lparr>name = ''notes.pdf.txt'', bytes = ''y''\<rparr>" upload_ready]
  by (simp add: pdf_suffix_ci_def upload_ready_eq dashboard_init_def)

text \<open>
  Claim C9. An accepted submission issues one request, built by mode. In upload mode it
  is a POST to \<open>/documents/analyze\<close> with a multipart body of two fields: \<open>file\<close>, the
  selected file, and \<open>analysis_data\<close>, the JSON text of the object with the members
  \<open>prompt_id\<close> and \<open>ai_model\<close>. In text mode it is a POST to \<open>/documents/analyze-text\<close>
  with a JSON body of the members \<open>prompt_id\<close>, \<open>ai_model\<close>, \<open>text_content\<close> (the stored
  text body, untrimmed) and \<open>document_name\<close>, which is \<open>Text Input\<close>.
\<close>

theorem analyze_payload_by_mode:
  "\<not> validation_fails s \<Longrightarrow>
     requests (handleAnalyzeDocument s) = requests s @ [analyze_request s] \<and>
     (inputMode s = Upload \<longrightarrow>
        (\<exists>f. selectedFile s = Some f \<and>
         analyze_request s =
           \<lparr>meth = POST, target = Api ''/documents/analyze'',
            headers = [(''Content-Type'', ''multipart/form-data'')],
            payload = FormData
              [(''file'', FileValue f),
               (''analysis_data'',
                StringValue (JSON_stringify
                  [(''prompt_id'', JString (prompt_id (analysisForm s))),
                   (''ai_model'', JString (ai_model (analysisForm s)))]))]\<rparr>)) \<and>
     (inputMode s = Text \<longrightarrow>
        analyze_request s =
          \<lparr>meth = POST, target = Api ''/documents/analyze-text'',
           headers = [(''Content-Type'', ''application/json'')],
           payload = JsonBody
             [(''prompt_id'', JString (prompt_id (analysisForm s))),
              (''ai_model'', JString (ai_model (analysisForm s))),
              (''text_content'', JString (textInput s)),
              (''document_name'', JString ''Text Input'')]\<rparr>)"
  by (cases "inputMode s")
     (auto simp: validation_fails_def handleAnalyzeDocument_def axios_send_def
        analyze_request_def form_object_def)

theorem analyze_payload_by_mode_witness:
  "\<not> validation_fails upload_ready \<and> \<not> validation_fails text_ready \<and>
   requests (handleAnalyzeDocument upload_ready) =
     [prompts_request, analyses_request,
      \<lparr>meth = POST, target = Api ''/documents/analyze'',
       headers = [(''Content-Type'', ''multipart/form-data'')],
       payload = FormData
         [(''file'', FileValue report_pdf),
          (''analysis_data'',
           StringValue
             ([CHR ''{'', CHR 0x22] @ ''prompt_id'' @ [CHR 0x22, CHR '':'', CHR 0x22] @ ''p1'' @
              [CHR 0x22, CHR '','', CHR 0x22] @ ''ai_model'' @ [CHR 0x22, CHR '':'', CHR 0x22] @
              ''gpt-5'' @ [CHR 0x22, CHR ''}'']))]\<rparr>] \<and>
   requests (handleAnalyzeDocument text_ready) =
     [prompts_request, analyses_request,
      \<lparr>meth = POST, target = Api ''/documents/analyze-text'',
       headers = [(''Content-Type'', ''application/json'')],
       payload = JsonBody
         [(''prompt_id'', JString ''p1''), (''ai_model'', JString ''claude-4''),
          (''text_content'', JString '' hello ''),
          (''document_name'', JString ''Text Input'')]\<rparr>]"
proof -
  have u: "\<not> validation_fails upload_ready"
    by (simp add: validation_fails_def upload_ready_eq dashboard_init_def)
  have t: "\<not> validation_fails text_ready"
    by (simp add: validation_fails_def text_ready_eq dashboard_init_def js_trim_def
        js_whitespace_def)
  have j: "JSON_stringify [(''prompt_id'', JString ''p1''), (''ai_model'', JString ''gpt-5'')] =
     [CHR ''{'', CHR 0x22] @ ''prompt_id'' @ [CHR 0x22, CHR '':'', CHR 0x22] @ ''p1'' @
     [CHR 0x22, CHR '','', CHR 0x22] @ ''ai_model'' @ [CHR 0x22, CHR '':'', CHR 0x22] @
     ''gpt-5'' @ [CHR 0x22, CHR ''}'']"
    by (simp add: JSON_stringify_def json_quote_def json_of_value_def json_escape_char_def)
  show ?thesis
    using u t analyze_payload_by_mode [OF u] analyze_payload_by_mode [OF t]
    by (simp add: upload_ready_eq text_ready_eq dashboard_init_def j
        analyze_request_def form_object_def)
qed

text \<open>
  Claim C10. When a submission fails, by a transport error or by an error response, the
  selected file, the text body, the input mode and the selection are left as they are
  and no request is issued; \<open>analyzing\<close> ends, so the component never stays in the
  submitting state; and the notice raised is the server's detail when the response
  carries one (a non-empty string), else the fallback \<open>Analysis failed\<close>.
\<close>

theorem analyze_failure_lands_in_failed:
  "selectedFile (handleAnalyzeDocument_settled (Rejected e) s) = selectedFile s \<and>
   textInput (handleAnalyzeDocument_settled (Rejected e) s) = textInput s \<and>
   inputMode (handleAnalyzeDocument_settled (Rejected e) s) = inputMode s \<and>
   analysisForm (handleAnalyzeDocument_settled (Rejected e) s) = analysisForm s \<and>
   requests (handleAnalyzeDocument_settled (Rejected e) s) = requests s \<and>
   analyzing (handleAnalyzeDocument_settled (Rejected e) s) = False \<and>
   (\<forall>d. error_detail e = Some d \<and> d \<noteq> [] \<longrightarrow>
        toasts (handleAnalyzeDocument_settled (Rejected e) s) = toasts s @ [ToastError d]) \<and>
   (error_detail e = None \<or> error_detail e = Some [] \<longrightarrow>
        toasts (handleAnalyzeDocument_settled (Rejected e) s) =
          toasts s @ [ToastError ''Analysis failed''])"
  by (auto simp: handleAnalyzeDocument_settled_def toast_error_def js_or_def)

theorem analyze_failure_lands_in_failed_witness:
  "error_detail (HttpError (Some ''Prompt not found'')) = Some ''Prompt not found'' \<and>
   error_detail NetworkError = None \<and>
   analyzing (analyze_btn_click upload_ready) \<and>
   \<not> analyzing (handleAnalyzeDocument_settled (Rejected NetworkError)
        (analyze_btn_click upload_ready)) \<and>
   selectedFile (handleAnalyzeDocument_settled (Rejected NetworkError)
        (analyze_btn_click upload_ready)) = Some report_pdf \<and>
   toasts (handleAnalyzeDocument_settled (Rejected NetworkError)
        (analyze_btn_click upload_ready)) = [ToastError ''Analysis failed''] \<and>
   toasts (handleAnalyzeDocument_settled (Rejected (HttpError (Some ''Prompt not found'')))
        (analyze_btn_click upload_ready)) = [ToastError ''Prompt not found'']"
  using analyze_failure_lands_in_failed [of NetworkError "analyze_btn_click upload_ready"]
    analyze_failure_lands_in_failed
      [of "HttpError (Some ''Prompt not found'')" "analyze_btn_click upload_ready"]
    upload_ready_enabled
  by (simp add: error_detail_def analyze_btn_click_def accepted_submit upload_ready_eq
      dashboard_init_def)

section \<open>The session: what the claims say\<close>

text \<open>
  Claim C3, as stated, fails. Two calls of \<open>logout()\<close> in succession post to the logout
  endpoint twice, whether the second call starts while the first request is still awaited
  (the user is still set then) or after the first call has finished; and a call made
  while no user is set any more is not a no-op: it issues its request and raises the
  success notice again.
\<close>

theorem logout_twice_two_requests_counterexample:
  "user logged_in = Some user_a \<and> authorization logged_in = Some ''Bearer tok1'' \<and>
   app_requests logged_in = [me_request] \<and>
   user (handleLogout_post (handleLogout_post logged_in)) = Some user_a \<and>
   app_requests (handleLogout_post (handleLogout_post logged_in)) =
     [me_request, logout_request, logout_request] \<and>
   user (handleLogout (Fulfilled ()) logged_in) = None \<and>
   app_requests (handleLogout (Fulfilled ()) (handleLogout (Fulfilled ()) logged_in)) =
     [me_request, logout_request, logout_request] \<and>
   app_toasts (handleLogout (Fulfilled ()) (handleLogout (Fulfilled ()) logged_in)) =
     app_toasts (handleLogout (Fulfilled ()) logged_in) @
       [ToastSuccess ''Successfully logged out!''] \<and>
   handleLogout (Fulfilled ()) (handleLogout (Fulfilled ()) logged_in) \<noteq>
     handleLogout (Fulfilled ()) logged_in"
proof -
  note a = logged_in_facts
  have b: "app_requests (handleLogout (Fulfilled ()) (handleLogout (Fulfilled ()) logged_in)) =
     [me_request, logout_request, logout_request]"
    by (simp add: handleLogout_eq a)
  have c: "app_requests (handleLogout (Fulfilled ()) logged_in) = [me_request, logout_request]"
    by (simp add: handleLogout_eq a)
  have d: "handleLogout (Fulfilled ()) (handleLogout (Fulfilled ()) logged_in) \<noteq>
     handleLogout (Fulfilled ()) logged_in"
  proof
    assume "handleLogout (Fulfilled ()) (handleLogout (Fulfilled ()) logged_in) =
       handleLogout (Fulfilled ()) logged_in"
    then have "app_requests (handleLogout (Fulfilled ()) (handleLogout (Fulfilled ()) logged_in)) =
       app_requests (handleLogout (Fulfilled ()) logged_in)"
      by (rule arg_cong)
    with b c show False by simp
  qed
  have f: "user (handleLogout_post (handleLogout_post logged_in)) = Some user_a \<and>
     app_requests (handleLogout_post (handleLogout_post logged_in)) =
       [me_request, logout_request, logout_request]"
    by (simp add: handleLogout_post_def app_send_def a)
  have e: "user (handleLogout (Fulfilled ()) logged_in) = None \<and>
     app_toasts (handleLogout (Fulfilled ()) (handleLogout (Fulfilled ()) logged_in)) =
     app_toasts (handleLogout (Fulfilled ()) logged_in) @
       [ToastSuccess ''Successfully logged out!'']"
    by (simp add: handleLogout_eq)
  from a b d e f show ?thesis by blast
qed

text \<open>
  Claim C3, amended. \<open>logout()\<close> is idempotent on the credential state: each call,
  whatever the outcome of its request, clears the in-memory user, the session token, the
  cookie and the default Authorization header, and surfaces no error, only the success
  notice; and after two calls in succession they are cleared as after one. Each call
  issues its own POST to the logout endpoint, so two calls issue two.
\<close>

theorem logout_clears_credentials:
  "user (handleLogout r s) = None \<and> sessionToken (handleLogout r s) = None \<and>
   session_cookie (handleLogout r s) = None \<and> authorization (handleLogout r s) = None \<and>
   app_requests (handleLogout r s) = app_requests s @ [logout_request] \<and>
   app_toasts (handleLogout r s) = app_toasts s @ [ToastSuccess ''Successfully logged out!''] \<and>
   user (handleLogout r' (handleLogout r s)) = None \<and>
   sessionToken (handleLogout r' (handleLogout r s)) = None \<and>
   session_cookie (handleLogout r' (handleLogout r s)) = None \<and>
   authorization (handleLogout r' (handleLogout r s)) = None \<and>
   app_requests (handleLogout r' (handleLogout r s)) =
     app_requests s @ [logout_request, logout_request]"
  by (simp add: handleLogout_eq)

text \<open>
  Claim C4. With a fragment that holds no \<open>session_id\<close>, \<open>processSessionId\<close> probes
  \<open>/auth/me\<close> and, on success, adopts the returned user with the token \<open>null\<close>. The
  claim says that no bearer header and no cookie are installed then. The code calls
  \<open>handleLogin\<close> with that \<open>null\<close>, which writes the cookie \<open>session_token=null\<close> and the
  header \<open>Bearer null\<close>; \<open>checkExistingSession\<close>, on the same probe, installs neither.
\<close>

theorem fallback_login_installs_null_bearer:
  "sessionMatch ''#'' = None \<and>
   user fallback_login = Some user_a \<and> sessionToken fallback_login = None \<and>
   app_requests fallback_login = [me_request] \<and>
   authorization fallback_login = Some ''Bearer null'' \<and>
   session_cookie fallback_login =
     Some \<lparr>cookie_value = ''null'', cookie_path = ''/'', cookie_secure = True,
           cookie_samesite = ''none'', cookie_max_age = 604800\<rparr> \<and>
   authorization (checkExistingSession (Fulfilled user_a) (app_init None ''#'')) = None \<and>
   session_cookie (checkExistingSession (Fulfilled user_a) (app_init None ''#'')) = None"
  by (simp add: fallback_login_def processSessionId_def handleLogin_def app_send_def
      app_init_def js_template_def checkExistingSession_def cookie_value_of_def
      cookie_blank_def)

end
